theory Spec2Isabelle
  imports Main "HOL-Library.Word"
begin

unbundle bit_operations_syntax

section \<open>Timer file descriptions (pkg/sentry/fsimpl/timerfd/timerfd.go)\<close>

text \<open>
  Errors are values.  \<open>EINVAL\<close> and \<open>ErrWouldBlock\<close> are the two errors that
  \<open>Read\<close> produces itself; \<open>EFAULT\<close> and \<open>OtherError\<close> stand for whatever the
  copy-out to user memory may report.
\<close>

datatype error = EINVAL | ErrWouldBlock | EFAULT | OtherError string

type_synonym byte = "8 word"
type_synonym uint64 = "64 word"
type_synonym EventMask = "64 word"

text \<open>
  The fields of \<open>TimerFileDescription\<close> that \<open>Read\<close>, \<open>SetTime\<close>, \<open>Readiness\<close> and
  \<open>NotifyTimer\<close> touch: the atomic expiration counter \<open>val\<close>, and the event masks
  handed to \<open>events.Notify\<close> so far (most recent first).
\<close>

record TimerFileDescription =
  val :: uint64
  notified :: "EventMask list"

text \<open>
  \<open>usermem.IOSequence\<close> is declared outside the files at hand, so the destination of a
  read is a parameter: its size \<open>NumBytes\<close> (an int64) and its \<open>CopyOut\<close>, which takes
  the user memory and the bytes to copy and returns the count with the error, if any,
  and the memory afterwards.
\<close>

record 'mem IOSequence =
  NumBytes :: int
  CopyOut :: "'mem \<Rightarrow> byte list \<Rightarrow> (int \<times> error option) \<times> 'mem"

definition sizeofUint64 :: int where
  "sizeofUint64 = 8"

text \<open>\<open>hostarch.ByteOrder.PutUint64\<close>: little endian, byte \<open>i\<close> is \<open>byte(v >> (8*i))\<close>.\<close>

definition PutUint64 :: "uint64 \<Rightarrow> byte list" where
  "PutUint64 v =
     [ucast v, ucast (drop_bit 8 v), ucast (drop_bit 16 v), ucast (drop_bit 24 v),
      ucast (drop_bit 32 v), ucast (drop_bit 40 v), ucast (drop_bit 48 v),
      ucast (drop_bit 56 v)]"

text \<open>The matching decoder, \<open>ByteOrder.Uint64\<close>, used to say what the bytes encode.\<close>

fun Uint64 :: "byte list \<Rightarrow> uint64" where
  "Uint64 [] = 0"
| "Uint64 (b # bs) = ucast b OR push_bit 8 (Uint64 bs)"

text \<open>
  \<open>Read\<close>.  The result is the pair \<open>(n, err)\<close> of the Go function, the file
  description afterwards and the user memory afterwards.  \<open>tfd.val.Swap(0)\<close> stores 0
  and yields the old value before anything is copied out.
\<close>

definition Read ::
  "TimerFileDescription \<Rightarrow> 'mem IOSequence \<Rightarrow> 'mem \<Rightarrow>
     (int \<times> error option) \<times> TimerFileDescription \<times> 'mem" where
  "Read tfd dst mem =
     (if NumBytes dst < sizeofUint64 then ((0, Some EINVAL), tfd, mem)
      else
        let v = val tfd; tfd' = tfd\<lparr>val := 0\<rparr> in
        if v \<noteq> 0 then
          (case CopyOut dst mem (PutUint64 v) of
             ((_, Some err), mem') \<Rightarrow> ((0, Some err), tfd', mem')
           | ((_, None), mem') \<Rightarrow> ((sizeofUint64, None), tfd', mem'))
        else ((0, Some ErrWouldBlock), tfd', mem))"

text \<open>
  \<open>waiter.ReadableEvents\<close> is a constant of package \<open>waiter\<close>, which is not among the
  files at hand; it is a parameter of \<open>Readiness\<close> and \<open>NotifyTimer\<close>.
\<close>

definition Readiness :: "EventMask \<Rightarrow> TimerFileDescription \<Rightarrow> EventMask \<Rightarrow> EventMask" where
  "Readiness ReadableEvents tfd msk =
     (let ready = 0 in
      if val tfd \<noteq> 0 then ready OR ReadableEvents else ready)"

definition NotifyTimer :: "EventMask \<Rightarrow> TimerFileDescription \<Rightarrow> uint64 \<Rightarrow> TimerFileDescription" where
  "NotifyTimer ReadableEvents tfd exp =
     tfd\<lparr>val := val tfd + exp, notified := ReadableEvents # notified tfd\<rparr>"

text \<open>
  Modelled from the spec: \<open>Timer.Set\<close> of package \<open>ktime\<close> is not among the files at
  hand.  Section 4.1: \<open>Set(setting, resetFn)\<close> records the new setting, invokes
  \<open>resetFn\<close> while holding the timer mutex and returns the prior setting with the
  observed time; the listener is invoked with an expiration count whenever the clock
  has crossed a deadline.  So inside the call the listener may be notified of the
  expirations due under the old setting, before \<open>resetFn\<close> runs, and of those already
  due under the new setting, after it.  Both counts depend on the clock and are
  parameters, as is the value returned; a count of zero is not delivered.
\<close>

definition timerSet ::
  "EventMask \<Rightarrow> uint64 \<Rightarrow> uint64 \<Rightarrow> 'r \<Rightarrow> 's \<Rightarrow>
   (TimerFileDescription \<Rightarrow> TimerFileDescription) \<Rightarrow> TimerFileDescription \<Rightarrow>
     'r \<times> TimerFileDescription" where
  "timerSet ReadableEvents oldExp newExp prior s resetFn tfd =
     (let t1 = (if 0 < oldExp then NotifyTimer ReadableEvents tfd oldExp else tfd);
          t2 = resetFn t1;
          t3 = (if 0 < newExp then NotifyTimer ReadableEvents t2 newExp else t2)
      in (prior, t3))"

text \<open>
  \<open>SetTime\<close> is \<open>tfd.timer.Set(s, func() { tfd.val.Store(0) })\<close>: it hands the setting
  and the callback that stores 0 in the counter to the timer's \<open>Set\<close> (the first
  parameter here) and returns what \<open>Set\<close> returns.
\<close>

definition SetTime ::
  "('s \<Rightarrow> (TimerFileDescription \<Rightarrow> TimerFileDescription) \<Rightarrow> TimerFileDescription \<Rightarrow>
      'r \<times> TimerFileDescription) \<Rightarrow>
   's \<Rightarrow> TimerFileDescription \<Rightarrow> 'r \<times> TimerFileDescription" where
  "SetTime Set s tfd = Set s (\<lambda>t. t\<lparr>val := 0\<rparr>) tfd"

text \<open>A destination whose copy-out always fails with the given error.\<close>

definition faulting :: "int \<Rightarrow> error \<Rightarrow> (byte list) IOSequence" where
  "faulting n e = \<lparr>NumBytes = n, CopyOut = (\<lambda>mem src. ((0, Some e), mem))\<rparr>"

text \<open>A destination of \<open>n\<close> bytes that stores what fits of the source.\<close>

definition buffer :: "int \<Rightarrow> (byte list) IOSequence" where
  "buffer n =
     \<lparr>NumBytes = n,
      CopyOut = (\<lambda>mem src. ((min n (int (length src)), None), take (nat n) src))\<rparr>"

section \<open>The control plane (pkg/sentry/control/lifecycle.go)\<close>

type_synonym int32 = "32 word"

text \<open>
  The fields of \<open>Lifecycle\<close> that \<open>StartContainer\<close> reads and writes after the process
  has been created: the two int32 counters, and the channel \<open>StartedCh\<close>, modelled by
  the number of values sent on it so far.  (A send on the channel returns only once
  the value has been taken or buffered; a call that returns has completed its send.)
\<close>

record Lifecycle =
  NumContainers :: int32
  containersStarted :: int32
  StartedCh :: nat

text \<open>
  Everything \<open>StartContainer\<close> does before it touches the counter is a call into the
  kernel (\<open>user.ResolveExecutablePath\<close>, \<open>fd.NewFromFiles\<close>, \<open>Kernel.CreateProcess\<close>),
  outside the files at hand.  The outcomes of these calls are the parameter: an error
  message where the call fails.
\<close>

record StartEnv =
  ResolveExecutablePath :: "string + string"
  NewFromFiles :: "string option"
  CreateProcess :: "string option"

text \<open>
  \<open>StartContainer\<close> returns the error, if any, and the \<open>Lifecycle\<close> afterwards.  Each
  early return leaves the \<open>Lifecycle\<close> as it was.  \<open>l.containersStarted++\<close> is int32
  addition, which wraps; the comparison with \<open>NumContainers\<close> is an equality.
\<close>

definition StartContainer :: "StartEnv \<Rightarrow> Lifecycle \<Rightarrow> string option \<times> Lifecycle" where
  "StartContainer env l =
     (case ResolveExecutablePath env of
        Inl err \<Rightarrow> (Some err, l)
      | Inr resolved \<Rightarrow>
          (case NewFromFiles env of
             Some err \<Rightarrow> (Some (''duplicating payload files: '' @ err), l)
           | None \<Rightarrow>
               (case CreateProcess env of
                  Some err \<Rightarrow> (Some err, l)
                | None \<Rightarrow>
                    let l1 = l\<lparr>containersStarted := containersStarted l + 1\<rparr>;
                        l2 = (if NumContainers l1 = containersStarted l1
                              then l1\<lparr>StartedCh := StartedCh l1 + 1\<rparr> else l1)
                    in (None, l2))))"

text \<open>A sequence of calls, one per environment, with the results in order.\<close>

fun StartContainers :: "StartEnv list \<Rightarrow> Lifecycle \<Rightarrow> string option list \<times> Lifecycle" where
  "StartContainers [] l = ([], l)"
| "StartContainers (env # envs) l =
     (let (r, l1) = StartContainer env l; (rs, l2) = StartContainers envs l1
      in (r # rs, l2))"

text \<open>The number of calls that returned no error.\<close>

definition started :: "string option list \<Rightarrow> nat" where
  "started rs = length (filter (\<lambda>r. r = None) rs)"

definition okEnv :: StartEnv where
  "okEnv = \<lparr>ResolveExecutablePath = Inr ''/bin/sleep'', NewFromFiles = None, CreateProcess = None\<rparr>"

definition failEnv :: StartEnv where
  "failEnv = \<lparr>ResolveExecutablePath = Inr ''/bin/sleep'', NewFromFiles = None,
              CreateProcess = Some ''no such file''\<rparr>"

text \<open>
  \<open>Lifecycle.Pause\<close> and \<open>Lifecycle.Resume\<close> call \<open>Kernel.Pause\<close> and \<open>Kernel.Unpause\<close>
  (parameters here) and return nil, whatever the state.
\<close>

definition Lifecycle_Pause :: "('k \<Rightarrow> 'k) \<Rightarrow> 'k \<Rightarrow> string option \<times> 'k" where
  "Lifecycle_Pause KernelPause k = (None, KernelPause k)"

definition Lifecycle_Resume :: "('k \<Rightarrow> 'k) \<Rightarrow> 'k \<Rightarrow> string option \<times> 'k" where
  "Lifecycle_Resume KernelUnpause k = (None, KernelUnpause k)"

subsection \<open>createNewMountNamespace\<close>

record SentryMount =
  Target :: string
  FsType :: string

text \<open>The fields of \<open>vfs.MountOptions\<close> that \<open>createNewMountNamespace\<close> sets.\<close>

record InternalFilesystemOptions =
  UniqueID :: string

record GetFilesystemOptions =
  Data :: string
  InternalData :: InternalFilesystemOptions

record MountOptions =
  ReadOnly :: bool
  GetFilesystemOptions :: GetFilesystemOptions
  InternalMount :: bool

text \<open>\<open>strconv.Itoa\<close>: decimal digits, most significant first, with a minus sign.\<close>

function natToDec :: "nat \<Rightarrow> string" where
  "natToDec n =
     (if n < 10 then [''0123456789'' ! n]
      else natToDec (n div 10) @ [''0123456789'' ! (n mod 10)])"
  by pat_completeness auto
termination
  by (relation "measure id") auto

declare natToDec.simps [simp del]

definition Itoa :: "int \<Rightarrow> string" where
  "Itoa i = (if i < 0 then ''-'' @ natToDec (nat (- i)) else natToDec (nat i))"

text \<open>\<open>strings.Join\<close>.\<close>

fun Join :: "string list \<Rightarrow> string \<Rightarrow> string" where
  "Join [] sep = []"
| "Join [x] sep = x"
| "Join (x # y # xs) sep = x @ sep @ Join (y # xs) sep"

text \<open>
  \<open>createNewMountNamespace\<close>.  \<open>VFS().NewMountNamespace\<close> and
  \<open>auth.NewRootCredentials\<close> (of the credentials' user namespace) are outside the files
  at hand and are parameters; errors are their messages.  The function ends after the
  root namespace is built: its last statement before the return is the comment
  \<open>TODO: Mount submounts.\<close>, and \<open>submounts\<close> is not used.
\<close>

definition createNewMountNamespace ::
  "('creds \<Rightarrow> string \<Rightarrow> string \<Rightarrow> MountOptions \<Rightarrow> string + 'mns) \<Rightarrow> ('creds \<Rightarrow> 'creds) \<Rightarrow>
   'creds \<Rightarrow> string \<Rightarrow> int \<Rightarrow> SentryMount list \<Rightarrow> string + 'mns" where
  "createNewMountNamespace NewMountNamespace NewRootCredentials creds fsType fd submounts =
     (let data = [''trans=fd'', ''rfdno='' @ Itoa fd, ''wfdno='' @ Itoa fd];
          opts = \<lparr>ReadOnly = True,
                  GetFilesystemOptions =
                    \<lparr>Data = Join data '','', InternalData = \<lparr>UniqueID = ''/''\<rparr>\<rparr>,
                  InternalMount = True\<rparr>;
          rootCreds = NewRootCredentials creds
      in case NewMountNamespace rootCreds '''' fsType opts of
           Inl err \<Rightarrow> Inl (''failed to construct MountNamespace: '' @ err)
         | Inr mns \<Rightarrow> Inr mns)"

text \<open>
  A stand-in for \<open>NewMountNamespace\<close> to run the function on: the namespace it builds
  is the list of its mounts, each with source, filesystem type and options; a new
  namespace holds the root mount alone.
\<close>

definition rootOnly ::
  "unit \<Rightarrow> string \<Rightarrow> string \<Rightarrow> MountOptions \<Rightarrow>
     string + (string \<times> string \<times> MountOptions) list" where
  "rootOnly creds source fsType opts = Inr [(source, fsType, opts)]"

section \<open>Container status (runsc/container)\<close>

text \<open>
  Modelled from the spec: \<open>Container.Pause\<close> and \<open>Container.Resume\<close> are defined in
  runsc/container/container.go, which is not among the files at hand; only their test
  \<open>TestPauseResumeStatus\<close> is.  The spec gives the status values and the two contracts:
  \<open>Pause\<close> transitions Running to Paused and fails with NotRunning otherwise; \<open>Resume\<close>
  reverses it and fails with NotPaused otherwise.
\<close>

datatype Status = Creating | Created | Running | Paused | Stopped

datatype StateError = AlreadyStarted | NotRunning | NotPaused

record Container =
  ID :: string
  Status :: Status

text \<open>Modelled from the spec: \<open>Container.Pause\<close> (container.go is missing), section 4.5.\<close>

definition Container_Pause :: "Container \<Rightarrow> StateError option \<times> Container" where
  "Container_Pause c =
     (if Status c = Running then (None, c\<lparr>Status := Paused\<rparr>) else (Some NotRunning, c))"

text \<open>Modelled from the spec: \<open>Container.Resume\<close> (container.go is missing), section 4.5.\<close>

definition Container_Resume :: "Container \<Rightarrow> StateError option \<times> Container" where
  "Container_Resume c =
     (if Status c = Paused then (None, c\<lparr>Status := Running\<rparr>) else (Some NotPaused, c))"

section \<open>Validation of the restore spec (runsc/specutils)\<close>

text \<open>
  Modelled from the spec: \<open>specutils.RestoreValidateSpec\<close>, which \<open>Container.Restore\<close>
  runs first, is not among the files at hand; only \<open>TestSpecValidation\<close> and
  \<open>TestSpecValidationIgnore\<close> are.  The model follows section 4.6, step 1, and the
  field names of the error messages the tests expect.  Of the OCI spec it keeps the
  fields the spec names; capabilities, devices, the seccomp profile and the resources
  are compared for equality only and are type parameters.
\<close>

record LinuxNamespace =
  Type :: string
  Path :: string

record Mount =
  Destination :: string
  Source :: string
  MountType :: string

record ('cap, 'dev, 'sec, 'res) Spec =
  Terminal :: bool
  Args :: "string list"
  Cwd :: string
  Capabilities :: 'cap
  Devices :: 'dev
  Namespaces :: "LinuxNamespace list"
  Seccomp :: 'sec
  Resources :: 'res
  Mounts :: "Mount list"
  Annotations :: "(string \<times> string) list"

text \<open>
  Modelled from the spec: the annotation keys left out of the comparison are those
  with one of three prefixes.
\<close>

definition ignoredAnnotationPrefixes :: "string list" where
  "ignoredAnnotationPrefixes =
     [''dev.gvisor.internal.'', ''dev.gvisor.spec.mount.'', ''dev.gvisor.container-name-remap.'']"

definition hasPrefix :: "string \<Rightarrow> string \<Rightarrow> bool" where
  "hasPrefix s p = (take (length p) s = p)"

definition validatedAnnotations :: "(string \<times> string) list \<Rightarrow> (string \<times> string) set" where
  "validatedAnnotations as =
     set (filter (\<lambda>(k, v). \<not> list_ex (hasPrefix k) ignoredAnnotationPrefixes) as)"

text \<open>
  Modelled from the spec: the arguments match when they are equal; they may also
  match when they differ in \<open>argv[0]\<close> only and the two names denote the same binary
  under \<open>Cwd\<close>.  That last relation needs the file system and is the parameter
  \<open>sameBinary\<close>.
\<close>

definition argsMatch ::
  "(string \<Rightarrow> string \<Rightarrow> string \<Rightarrow> bool) \<Rightarrow>
   ('cap, 'dev, 'sec, 'res) Spec \<Rightarrow> ('cap, 'dev, 'sec, 'res) Spec \<Rightarrow> bool" where
  "argsMatch sameBinary old new =
     (Args old = Args new \<or>
      (Args old \<noteq> [] \<and> Args new \<noteq> [] \<and> tl (Args old) = tl (Args new) \<and>
       Cwd old = Cwd new \<and> sameBinary (Cwd new) (hd (Args old)) (hd (Args new))))"

text \<open>
  Modelled from the spec: the fields that do not match, in the order of section 4.6.
  Namespaces are compared by \<open>Type\<close>; mounts are compared up to repeated identical
  entries; \<open>Resources\<close> is not compared.
\<close>

definition mismatches ::
  "(string \<Rightarrow> string \<Rightarrow> string \<Rightarrow> bool) \<Rightarrow>
   ('cap, 'dev, 'sec, 'res) Spec \<Rightarrow> ('cap, 'dev, 'sec, 'res) Spec \<Rightarrow> string list" where
  "mismatches sameBinary old new =
     (if Terminal old = Terminal new then [] else [''Terminal'']) @
     (if argsMatch sameBinary old new then [] else [''Args'']) @
     (if Capabilities old = Capabilities new then [] else [''Capabilities'']) @
     (if Devices old = Devices new then [] else [''Devices'']) @
     (if map Type (Namespaces old) = map Type (Namespaces new) then [] else [''Namespace'']) @
     (if Seccomp old = Seccomp new then [] else [''Seccomp'']) @
     (if validatedAnnotations (Annotations old) = validatedAnnotations (Annotations new)
      then [] else [''Annotations'']) @
     (if remdups (Mounts old) = remdups (Mounts new) then [] else [''Mounts''])"

text \<open>
  Modelled from the spec: a mismatch fails with \<open>SpecMismatch\<close>; section 8 asks that
  the failure name a field exactly when that field differs, so the error carries every
  field that does not match.  The policy flag \<open>ignore\<close> bypasses the validation.
\<close>

datatype RestoreError = SpecMismatch "string list"

definition RestoreValidateSpec ::
  "(string \<Rightarrow> string \<Rightarrow> string \<Rightarrow> bool) \<Rightarrow> bool \<Rightarrow>
   ('cap, 'dev, 'sec, 'res) Spec \<Rightarrow> ('cap, 'dev, 'sec, 'res) Spec \<Rightarrow> RestoreError option" where
  "RestoreValidateSpec sameBinary ignore old new =
     (if ignore then None
      else case mismatches sameBinary old new of
             [] \<Rightarrow> None
           | fs \<Rightarrow> Some (SpecMismatch fs))"

text \<open>The error message contains \<open>f does not match\<close>: the error names the field.\<close>

fun names :: "RestoreError option \<Rightarrow> string \<Rightarrow> bool" where
  "names None f = False"
| "names (Some (SpecMismatch fs)) f = (f \<in> set fs)"

text \<open>The spec of the tests, \<open>sleepSpecConf\<close>, as far as the model goes.\<close>

definition sleepSpec :: "(string list, string list, string option, int) Spec" where
  "sleepSpec =
     \<lparr>Terminal = False, Args = [''sleep'', ''1000''], Cwd = ''/'',
      Capabilities = [''CAP_CHOWN''], Devices = [], Namespaces = [], Seccomp = None,
      Resources = 3, Mounts = [], Annotations = []\<rparr>"

section \<open>Timer file descriptions: encoding\<close>

lemma length_PutUint64: "length (PutUint64 v) = 8"
  by (simp add: PutUint64_def)

lemma low_byte_split: "ucast (ucast w :: byte) OR push_bit 8 (drop_bit 8 w) = (w :: uint64)"
proof (rule bit_word_eqI)
  fix n assume len: "n < LENGTH(64)"
  show "bit (ucast (ucast w :: byte) OR push_bit 8 (drop_bit 8 w)) n = bit w n"
  proof (cases "n < 8")
    case True
    then show ?thesis by (simp add: bit_simps)
  next
    case False
    then have "8 + (n - 8) = n" by simp
    with False len show ?thesis by (simp add: bit_simps)
  qed
qed

lemma top_byte: "ucast (ucast (drop_bit 56 w) :: byte) = drop_bit 56 (w :: uint64)"
proof (rule bit_word_eqI)
  fix n assume "n < LENGTH(64)"
  have "bit w (56 + n) \<Longrightarrow> n < 8"
    using bit_imp_le_length [of w "56 + n"] by simp
  then show "bit (ucast (ucast (drop_bit 56 w) :: byte) :: uint64) n = bit (drop_bit 56 w) n"
    by (auto simp add: bit_simps)
qed

lemma byte_step:
  "ucast (ucast (drop_bit k w) :: byte) OR push_bit 8 (drop_bit (8 + k) w)
     = drop_bit k (w :: uint64)"
  using low_byte_split [of "drop_bit k w"] by (simp only: drop_bit_drop_bit)

lemma Uint64_PutUint64: "Uint64 (PutUint64 v) = v"
proof -
  have "Uint64 (PutUint64 v) =
      ucast (ucast v :: byte) OR push_bit 8 (
      ucast (ucast (drop_bit 8 v) :: byte) OR push_bit 8 (
      ucast (ucast (drop_bit 16 v) :: byte) OR push_bit 8 (
      ucast (ucast (drop_bit 24 v) :: byte) OR push_bit 8 (
      ucast (ucast (drop_bit 32 v) :: byte) OR push_bit 8 (
      ucast (ucast (drop_bit 40 v) :: byte) OR push_bit 8 (
      ucast (ucast (drop_bit 48 v) :: byte) OR push_bit 8 (
      ucast (ucast (drop_bit 56 v) :: byte))))))))"
    by (simp only: PutUint64_def Uint64.simps push_bit_of_0 or.right_neutral)
  also have "\<dots> = v"
    using byte_step [of 48 v] byte_step [of 40 v] byte_step [of 32 v] byte_step [of 24 v]
      byte_step [of 16 v] byte_step [of 8 v] low_byte_split [of v]
    by (simp only: top_byte semiring_norm)
  finally show ?thesis .
qed

section \<open>Timer file descriptions: the counter between reads\<close>

text \<open>Each notification adds to the counter, with 64-bit wrap-around.\<close>

lemma val_NotifyTimer_foldl:
  "val (foldl (NotifyTimer R) tfd es) = val tfd + sum_list es"
  by (induction es arbitrary: tfd) (simp_all add: NotifyTimer_def add.assoc)

text \<open>
  When \<open>SetTime\<close> returns, the counter holds the expirations the timer delivered after
  the store of 0, and none of those before it.
\<close>

lemma val_SetTime_timerSet:
  "val (snd (SetTime (timerSet R oldExp newExp prior) s tfd)) = newExp"
  by (simp add: SetTime_def timerSet_def NotifyTimer_def Let_def word_greater_zero_iff)

text \<open>Every read that gets past the size check leaves the counter at zero.\<close>

lemma val_after_Read:
  "sizeofUint64 \<le> NumBytes dst \<Longrightarrow> val (fst (snd (Read tfd dst mem))) = 0"
  by (simp add: Read_def Let_def split: prod.splits option.splits)

section \<open>Timer file descriptions: Read\<close>

text \<open>
  C10.  A read into a destination of fewer than 8 bytes returns \<open>EINVAL\<close> with
  count 0 and leaves the file description (so the expiration counter) and the user
  memory as they were, whatever the counter holds.
\<close>

theorem Read_short_buffer_EINVAL:
  "NumBytes dst < 8 \<Longrightarrow>
     Read tfd dst mem = ((0, Some EINVAL), tfd, mem) \<and>
     val (fst (snd (Read tfd dst mem))) = val tfd"
  by (simp add: Read_def sizeofUint64_def)

theorem Read_short_buffer_EINVAL_witness:
  "NumBytes (buffer 7) < 8 \<and>
   Read \<lparr>val = 5, notified = []\<rparr> (buffer 7) [] =
     ((0, Some EINVAL), \<lparr>val = 5, notified = []\<rparr>, []) \<and>
   Read \<lparr>val = 0, notified = []\<rparr> (buffer 7) [] =
     ((0, Some EINVAL), \<lparr>val = 0, notified = []\<rparr>, [])"
  using Read_short_buffer_EINVAL [of "buffer 7" "\<lparr>val = 5, notified = []\<rparr>" "[]"]
    Read_short_buffer_EINVAL [of "buffer 7" "\<lparr>val = 0, notified = []\<rparr>" "[]"]
  by (simp add: buffer_def)

text \<open>
  C1, as stated: a read whose copy-out fails leaves the expiration counter unchanged.
  It does not: with three expirations pending and a destination of 8 bytes whose
  copy-out faults, the read returns the fault and the counter is 0 afterwards.
\<close>

theorem Read_failed_copy_counterexample:
  "Read \<lparr>val = 3, notified = []\<rparr> (faulting 8 EFAULT) [] =
     ((0, Some EFAULT), \<lparr>val = 0, notified = []\<rparr>, []) \<and>
   val (fst (snd (Read \<lparr>val = 3, notified = []\<rparr> (faulting 8 EFAULT) []))) \<noteq> 3"
  by (simp add: Read_def faulting_def sizeofUint64_def)

text \<open>
  C1, amended.  When the counter is non-zero, the destination has at least 8 bytes and
  the copy-out fails, the read returns count 0 with the copy-out error, and the counter
  has been reset to zero: the expirations are consumed by the failed read.
\<close>

theorem Read_failed_copy_consumes:
  "\<lbrakk>sizeofUint64 \<le> NumBytes dst; val tfd \<noteq> 0;
    CopyOut dst mem (PutUint64 (val tfd)) = ((n, Some err), mem')\<rbrakk>
   \<Longrightarrow> Read tfd dst mem = ((0, Some err), tfd\<lparr>val := 0\<rparr>, mem') \<and>
       val (fst (snd (Read tfd dst mem))) = 0"
  by (simp add: Read_def)

theorem Read_failed_copy_consumes_witness:
  "sizeofUint64 \<le> NumBytes (faulting 8 EFAULT) \<and>
   val \<lparr>val = 3, notified = []\<rparr> \<noteq> 0 \<and>
   CopyOut (faulting 8 EFAULT) [] (PutUint64 3) = ((0, Some EFAULT), []) \<and>
   Read \<lparr>val = 3, notified = []\<rparr> (faulting 8 EFAULT) [] =
     ((0, Some EFAULT), \<lparr>val = 0, notified = []\<rparr>, [])"
  using Read_failed_copy_consumes
    [of "faulting 8 EFAULT" "\<lparr>val = 3, notified = []\<rparr>" "[]" 0 EFAULT "[]"]
  by (simp add: faulting_def sizeofUint64_def)

text \<open>
  What a read into a destination of at least 8 bytes does, in terms of the counter.
\<close>

lemma Read_large_buffer_val:
  assumes "sizeofUint64 \<le> NumBytes dst" and "sizeofUint64 \<le> NumBytes dst2"
  shows "(val tfd \<noteq> 0 \<and> snd (fst (CopyOut dst mem (PutUint64 (val tfd)))) = None \<longrightarrow>
            fst (Read tfd dst mem) = (8, None) \<and>
            snd (snd (Read tfd dst mem)) = snd (CopyOut dst mem (PutUint64 (val tfd))) \<and>
            length (PutUint64 (val tfd)) = 8 \<and>
            Uint64 (PutUint64 (val tfd)) = val tfd)
       \<and> (val tfd \<noteq> 0 \<longrightarrow>
            val (fst (snd (Read tfd dst mem))) = 0 \<and>
            fst (Read (fst (snd (Read tfd dst mem))) dst2 mem2) = (0, Some ErrWouldBlock))
       \<and> (val tfd = 0 \<longrightarrow> Read tfd dst mem = ((0, Some ErrWouldBlock), tfd, mem))"
proof (intro conjI impI)
  assume ok: "val tfd \<noteq> 0 \<and> snd (fst (CopyOut dst mem (PutUint64 (val tfd)))) = None"
  obtain n mem' where c: "CopyOut dst mem (PutUint64 (val tfd)) = ((n, None), mem')"
    using ok by (cases "CopyOut dst mem (PutUint64 (val tfd))") auto
  from assms(1) ok c show "fst (Read tfd dst mem) = (8, None)"
    by (simp add: Read_def sizeofUint64_def)
  from assms(1) ok c
  show "snd (snd (Read tfd dst mem)) = snd (CopyOut dst mem (PutUint64 (val tfd)))"
    by (simp add: Read_def)
  show "length (PutUint64 (val tfd)) = 8" by (rule length_PutUint64)
  show "Uint64 (PutUint64 (val tfd)) = val tfd" by (rule Uint64_PutUint64)
next
  assume nz: "val tfd \<noteq> 0"
  from assms(1) show z: "val (fst (snd (Read tfd dst mem))) = 0"
    by (rule val_after_Read)
  from assms(2) z
  show "fst (Read (fst (snd (Read tfd dst mem))) dst2 mem2) = (0, Some ErrWouldBlock)"
    by (simp add: Read_def [of _ dst2])
next
  assume "val tfd = 0"
  with assms(1) show "Read tfd dst mem = ((0, Some ErrWouldBlock), tfd, mem)"
    by (simp add: Read_def)
qed

text \<open>
  C7, as stated: with a destination of at least 8 bytes and a non-zero counter, the
  read returns 8 bytes that encode the number of expirations since the last successful
  read or \<open>SetTime\<close>.  Two things fail.  With three expirations pending and a
  destination of 8 bytes whose copy-out faults, the read returns count 0 and the fault,
  not 8 bytes.  And that failed read has consumed the three: after two more
  expirations the next read, into a good buffer, returns the 8 bytes of 2, though 5
  expirations have occurred since the last successful read.
\<close>

theorem Read_large_buffer_counterexample:
  "sizeofUint64 \<le> NumBytes (faulting 8 EFAULT) \<and>
   fst (Read (NotifyTimer 0x41 \<lparr>val = 0, notified = []\<rparr> 3) (faulting 8 EFAULT) []) =
     (0, Some EFAULT) \<and>
   Read (NotifyTimer 0x41
           (fst (snd (Read (NotifyTimer 0x41 \<lparr>val = 0, notified = []\<rparr> 3)
                        (faulting 8 EFAULT) []))) 2)
        (buffer 8) [] =
     ((8, None), \<lparr>val = 0, notified = [0x41, 0x41]\<rparr>, [2, 0, 0, 0, 0, 0, 0, 0]) \<and>
   Uint64 [2, 0, 0, 0, 0, 0, 0, 0] \<noteq> 3 + 2"
  by (simp add: Read_def faulting_def buffer_def sizeofUint64_def NotifyTimer_def PutUint64_def)

text \<open>
  C7, amended.  The counter is set to zero by every read that gets past the size
  check, whether its copy-out succeeds or fails, and by the store of 0 that \<open>SetTime\<close>
  hands to the timer.  Take the file description right after such a read, or right
  after a \<open>SetTime\<close> in which the timer delivered nothing after that store, and let the
  expirations \<open>es\<close> be notified since.  The counter is then their sum (modulo
  \<open>2 ^ 64\<close>).  For a read into a destination of at least 8 bytes: if that sum is
  non-zero, the read hands its 8-byte little-endian encoding to the copy-out, and if
  the copy-out succeeds it returns 8 with no error and the memory the copy-out
  produced; whether or not the copy-out succeeds the counter is zero afterwards, so a
  read that follows at once returns \<open>ErrWouldBlock\<close>.  If the sum is zero, the read
  returns \<open>ErrWouldBlock\<close> and the file description and the memory are as before.
\<close>

theorem Read_large_buffer_since_reset:
  assumes "sizeofUint64 \<le> NumBytes dst" and "sizeofUint64 \<le> NumBytes dst2"
    and "(sizeofUint64 \<le> NumBytes dst0 \<and> tfd0 = fst (snd (Read t dst0 mem0))) \<or>
         tfd0 = snd (SetTime (timerSet R oldExp 0 prior) s t)"
    and "tfd = foldl (NotifyTimer R) tfd0 es"
  shows "val tfd = sum_list es
       \<and> (sum_list es \<noteq> 0 \<and> snd (fst (CopyOut dst mem (PutUint64 (sum_list es)))) = None \<longrightarrow>
            fst (Read tfd dst mem) = (8, None) \<and>
            snd (snd (Read tfd dst mem)) = snd (CopyOut dst mem (PutUint64 (sum_list es))) \<and>
            length (PutUint64 (sum_list es)) = 8 \<and>
            Uint64 (PutUint64 (sum_list es)) = sum_list es)
       \<and> (sum_list es \<noteq> 0 \<longrightarrow>
            val (fst (snd (Read tfd dst mem))) = 0 \<and>
            fst (Read (fst (snd (Read tfd dst mem))) dst2 mem2) = (0, Some ErrWouldBlock))
       \<and> (sum_list es = 0 \<longrightarrow> Read tfd dst mem = ((0, Some ErrWouldBlock), tfd, mem))"
proof -
  from assms(3) have "val tfd0 = 0"
  proof
    assume "sizeofUint64 \<le> NumBytes dst0 \<and> tfd0 = fst (snd (Read t dst0 mem0))"
    then show ?thesis by (simp add: val_after_Read)
  next
    assume "tfd0 = snd (SetTime (timerSet R oldExp 0 prior) s t)"
    then show ?thesis by (simp add: val_SetTime_timerSet)
  qed
  with assms(4) have v: "val tfd = sum_list es"
    by (simp add: val_NotifyTimer_foldl)
  from Read_large_buffer_val [OF assms(1) assms(2), of tfd mem mem2] v
  show ?thesis by simp
qed

theorem Read_large_buffer_since_reset_witness:
  "sizeofUint64 \<le> NumBytes (buffer 8) \<and>
   sizeofUint64 \<le> NumBytes (faulting 8 EFAULT) \<and>
   Read (foldl (NotifyTimer 0x41)
           (fst (snd (Read \<lparr>val = 3, notified = []\<rparr> (faulting 8 EFAULT) []))) [2])
        (buffer 8) [] =
     ((8, None), \<lparr>val = 0, notified = [0x41]\<rparr>, [2, 0, 0, 0, 0, 0, 0, 0]) \<and>
   Read (foldl (NotifyTimer 0x41)
           (snd (SetTime (timerSet 0x41 4 0 ()) () \<lparr>val = 7, notified = []\<rparr>)) [1, 2])
        (buffer 8) [] =
     ((8, None), \<lparr>val = 0, notified = [0x41, 0x41, 0x41]\<rparr>, [3, 0, 0, 0, 0, 0, 0, 0]) \<and>
   Read (foldl (NotifyTimer 0x41)
           (snd (SetTime (timerSet 0x41 4 0 ()) () \<lparr>val = 7, notified = []\<rparr>)) [])
        (buffer 8) [] =
     ((0, Some ErrWouldBlock), \<lparr>val = 0, notified = [0x41]\<rparr>, [])"
  using Read_large_buffer_since_reset
      [of "buffer 8" "buffer 8" "faulting 8 EFAULT"
          "fst (snd (Read \<lparr>val = 3, notified = []\<rparr> (faulting 8 EFAULT) []))"
          "\<lparr>val = 3, notified = []\<rparr>" "[]" "0x41" 0 "()" "()"
          "foldl (NotifyTimer 0x41)
             (fst (snd (Read \<lparr>val = 3, notified = []\<rparr> (faulting 8 EFAULT) []))) [2]"
          "[2]" "[]" "[]"]
    Read_large_buffer_since_reset
      [of "buffer 8" "buffer 8" "faulting 8 EFAULT"
          "snd (SetTime (timerSet 0x41 4 0 ()) () \<lparr>val = 7, notified = []\<rparr>)"
          "\<lparr>val = 7, notified = []\<rparr>" "[]" "0x41" 4 "()" "()"
          "foldl (NotifyTimer 0x41)
             (snd (SetTime (timerSet 0x41 4 0 ()) () \<lparr>val = 7, notified = []\<rparr>)) [1, 2]"
          "[1, 2]" "[]" "[]"]
    Read_large_buffer_since_reset
      [of "buffer 8" "buffer 8" "faulting 8 EFAULT"
          "snd (SetTime (timerSet 0x41 4 0 ()) () \<lparr>val = 7, notified = []\<rparr>)"
          "\<lparr>val = 7, notified = []\<rparr>" "[]" "0x41" 4 "()" "()"
          "foldl (NotifyTimer 0x41)
             (snd (SetTime (timerSet 0x41 4 0 ()) () \<lparr>val = 7, notified = []\<rparr>)) []"
          "[]" "[]" "[]"]
  by (simp add: buffer_def faulting_def sizeofUint64_def Read_def PutUint64_def
      SetTime_def timerSet_def NotifyTimer_def)

section \<open>Timer file descriptions: Readiness\<close>

text \<open>
  C8, as stated: \<open>Readiness m\<close> is a subset of \<open>m\<close>, and \<open>Readiness 0 = 0\<close> even when
  the counter is non-zero.  With \<open>ReadableEvents = 0x41\<close> (\<open>EventIn | EventRdNorm\<close>),
  one pending expiration and the empty mask, the result is \<open>0x41\<close>.
\<close>

theorem Readiness_subset_counterexample:
  "Readiness 0x41 \<lparr>val = 1, notified = []\<rparr> 0 = 0x41 \<and>
   Readiness 0x41 \<lparr>val = 1, notified = []\<rparr> 0 AND NOT 0 \<noteq> 0"
  by (simp add: Readiness_def)

text \<open>
  C8, amended.  \<open>Readiness\<close> does not look at its argument: it returns
  \<open>ReadableEvents\<close> when the counter is non-zero and 0 when it is zero.  So the result
  is a subset of \<open>m\<close> whenever \<open>m\<close> contains \<open>ReadableEvents\<close>, and whenever the counter
  is zero.
\<close>

theorem Readiness_ignores_mask:
  "Readiness R tfd m = (if val tfd = 0 then 0 else R) \<and>
   (R AND NOT m = 0 \<longrightarrow> Readiness R tfd m AND NOT m = 0) \<and>
   (val tfd = 0 \<longrightarrow> Readiness R tfd m AND NOT m = 0)"
  by (simp add: Readiness_def)

theorem Readiness_ignores_mask_witness:
  "(0x41 :: EventMask) AND NOT 0x41 = 0 \<and>
   Readiness 0x41 \<lparr>val = 1, notified = []\<rparr> 0x41 = 0x41 \<and>
   Readiness 0x41 \<lparr>val = 1, notified = []\<rparr> 0x41 AND NOT 0x41 = 0 \<and>
   val \<lparr>val = 0, notified = []\<rparr> = 0 \<and>
   Readiness 0x41 \<lparr>val = 0, notified = []\<rparr> 0 AND NOT 0 = 0"
  using Readiness_ignores_mask [of "0x41" "\<lparr>val = 1, notified = []\<rparr>" "0x41"]
    Readiness_ignores_mask [of "0x41" "\<lparr>val = 0, notified = []\<rparr>" 0]
  by simp

section \<open>The control plane: StartedCh\<close>

lemma StartContainer_cases:
  "(fst (StartContainer env l) \<noteq> None \<and> snd (StartContainer env l) = l) \<or>
   (fst (StartContainer env l) = None \<and>
    snd (StartContainer env l) =
      l\<lparr>containersStarted := containersStarted l + 1,
        StartedCh := StartedCh l + (if NumContainers l = containersStarted l + 1 then 1 else 0)\<rparr>)"
  by (simp add: StartContainer_def Let_def split: sum.splits option.splits)

text \<open>
  The int32 counter, having counted \<open>j\<close> starts, reaches \<open>n\<close> with the next start only
  when \<open>j + 1 = n\<close>, as long as fewer than \<open>2 ^ 32 + n\<close> starts are counted.
\<close>

lemma counter_hits:
  fixes j n :: nat
  assumes "0 < n" "n < 2 ^ 32" "j + 1 < 2 ^ 32 + n"
  shows "((of_nat n :: int32) = of_nat j + 1) = (j + 1 = n)"
proof -
  have "(of_nat j + 1 :: int32) = of_nat (j + 1)" by simp
  then have "((of_nat n :: int32) = of_nat j + 1) = (n mod 2 ^ 32 = (j + 1) mod 2 ^ 32)"
    by (simp only: word_of_nat_eq_iff take_bit_eq_mod) simp
  also have "\<dots> = (j + 1 = n)"
  proof (cases "j + 1 < 2 ^ 32")
    case True
    with assms show ?thesis by auto
  next
    case False
    then have "(j + 1) mod 2 ^ 32 = j + 1 - 2 ^ 32"
      using assms by (simp add: mod_if)
    with False assms show ?thesis by auto
  qed
  finally show ?thesis .
qed

lemma StartContainers_state:
  assumes "0 < n" "n < 2 ^ 32"
  shows "\<lbrakk>NumContainers l = of_nat n; containersStarted l = of_nat j;
          StartedCh l = (if n \<le> j then 1 else 0);
          j + started (fst (StartContainers envs l)) < 2 ^ 32 + n\<rbrakk>
         \<Longrightarrow> NumContainers (snd (StartContainers envs l)) = of_nat n \<and>
             containersStarted (snd (StartContainers envs l)) =
               of_nat (j + started (fst (StartContainers envs l))) \<and>
             StartedCh (snd (StartContainers envs l)) =
               (if n \<le> j + started (fst (StartContainers envs l)) then 1 else 0)"
proof (induction envs arbitrary: l j)
  case Nil
  then show ?case by (simp add: started_def)
next
  case (Cons env envs)
  let ?l1 = "snd (StartContainer env l)"
  have unf: "StartContainers (env # envs) l =
      (fst (StartContainer env l) # fst (StartContainers envs ?l1),
       snd (StartContainers envs ?l1))"
    by (simp add: split_beta Let_def)
  note StartContainers.simps(2) [simp del]
  from StartContainer_cases [of env l] show ?case
  proof
    assume f: "fst (StartContainer env l) \<noteq> None \<and> ?l1 = l"
    then have st: "started (fst (StartContainers (env # envs) l)) =
        started (fst (StartContainers envs l))"
      by (simp add: unf started_def)
    from Cons.prems st have "j + started (fst (StartContainers envs l)) < 2 ^ 32 + n" by simp
    from Cons.IH [OF Cons.prems(1-3) this] f st show ?thesis by (simp add: unf)
  next
    assume s: "fst (StartContainer env l) = None \<and> ?l1 =
      l\<lparr>containersStarted := containersStarted l + 1,
        StartedCh := StartedCh l + (if NumContainers l = containersStarted l + 1 then 1 else 0)\<rparr>"
    then have st: "started (fst (StartContainers (env # envs) l)) =
        Suc (started (fst (StartContainers envs ?l1)))"
      by (simp add: unf started_def)
    with Cons.prems have b: "Suc j + started (fst (StartContainers envs ?l1)) < 2 ^ 32 + n"
      by simp
    then have b1: "j + 1 < 2 ^ 32 + n" by simp
    have hit: "(NumContainers l = containersStarted l + 1) = (j + 1 = n)"
      using counter_hits [OF assms b1] Cons.prems(1,2) by simp
    have p1: "NumContainers ?l1 = of_nat n" using s Cons.prems(1) by simp
    have p2: "containersStarted ?l1 = of_nat (Suc j)" using s Cons.prems(2) by simp
    have p3: "StartedCh ?l1 = (if n \<le> Suc j then 1 else 0)"
      using s Cons.prems(3) hit by auto
    from Cons.IH [OF p1 p2 p3 b] st show ?thesis by (simp add: unf)
  qed
qed

lemma StartContainers_append:
  "snd (StartContainers (xs @ ys) l) = snd (StartContainers ys (snd (StartContainers xs l)))"
  by (induction xs arbitrary: l) (simp_all add: split_beta Let_def)

lemma StartContainers_snoc:
  "snd (StartContainers (replicate (Suc k) env) l) =
     snd (StartContainer env (snd (StartContainers (replicate k env) l)))"
proof -
  have "replicate (Suc k) env = replicate k env @ [env]"
    by (simp add: replicate_append_same)
  then show ?thesis
    by (simp only: StartContainers_append) (simp add: split_beta)
qed

lemma StartContainers_okEnv:
  "fst (StartContainers (replicate k okEnv) l) = replicate k None"
  by (induction k arbitrary: l) (simp_all add: split_beta Let_def StartContainer_def okEnv_def)

lemma started_replicate: "started (replicate k None) = k"
  by (simp add: started_def)

lemma positive_int32:
  fixes N :: int32
  assumes "0 < sint N"
  shows "N = of_nat (nat (sint N))" and "0 < nat (sint N)" and "nat (sint N) < 2 ^ 32"
proof -
  have "of_int (sint N) = N" by simp
  with assms show "N = of_nat (nat (sint N))" by (simp add: of_nat_nat)
  from assms show "0 < nat (sint N)" by simp
  have "sint N < 2 ^ (LENGTH(32) - 1)" by (rule sint_lt)
  then have "sint N < 2 ^ 32" by simp
  with assms show "nat (sint N) < 2 ^ 32" by (simp add: nat_less_iff)
qed

text \<open>
  C5, as stated: across any sequence of successful \<open>StartContainer\<close> calls the channel
  receives a value exactly once, never again after the \<open>N\<close>-th start.  The counter is
  an int32 compared for equality: with \<open>NumContainers = 1\<close>, after \<open>2 ^ 32 + 1\<close>
  successful calls the counter has wrapped to 1 again and two values have been sent.
\<close>

theorem StartedCh_twice_counterexample:
  "StartedCh (snd (StartContainers (replicate (Suc (2 ^ 32)) okEnv)
     \<lparr>NumContainers = 1, containersStarted = 0, StartedCh = 0\<rparr>)) = 2"
proof -
  let ?l = "\<lparr>NumContainers = 1, containersStarted = 0, StartedCh = 0\<rparr>"
  let ?m = "snd (StartContainers (replicate (2 ^ 32) okEnv) ?l)"
  have "NumContainers ?m = of_nat 1 \<and> containersStarted ?m = of_nat (0 + 2 ^ 32) \<and>
        StartedCh ?m = (if (1::nat) \<le> 0 + 2 ^ 32 then 1 else 0)"
    using StartContainers_state [of 1 ?l 0 "replicate (2 ^ 32) okEnv"]
    by (simp add: StartContainers_okEnv started_replicate)
  then have m: "NumContainers ?m = 1" "containersStarted ?m = 0" "StartedCh ?m = 1"
    by simp_all
  have "snd (StartContainers (replicate (Suc (2 ^ 32)) okEnv) ?l) =
      snd (StartContainer okEnv ?m)"
    by (rule StartContainers_snoc)
  also have "StartedCh \<dots> = 2"
    using m by (simp add: StartContainer_def okEnv_def Let_def)
  finally show ?thesis .
qed

text \<open>
  C5, amended.  Let \<open>NumContainers = N\<close> with \<open>N \<ge> 1\<close>, and let the \<open>Lifecycle\<close> start
  with no container started and nothing sent.  After any sequence of \<open>StartContainer\<close>
  calls of which fewer than \<open>2 ^ 32 + N\<close> succeed, the channel has received exactly one
  value if at least \<open>N\<close> calls have succeeded and none otherwise: the value is sent by
  the \<open>N\<close>-th successful call, not before and not again.  Failed calls send nothing.
\<close>

theorem StartedCh_once:
  assumes "0 < sint (NumContainers l)"
    and "containersStarted l = 0" and "StartedCh l = 0"
    and "started (fst (StartContainers envs l)) < 2 ^ 32 + nat (sint (NumContainers l))"
  shows "StartedCh (snd (StartContainers envs l)) =
           (if nat (sint (NumContainers l)) \<le> started (fst (StartContainers envs l))
            then 1 else 0)"
proof -
  let ?n = "nat (sint (NumContainers l))"
  note p = positive_int32 [OF assms(1)]
  have c: "containersStarted l = of_nat 0" using assms(2) by simp
  have s: "StartedCh l = (if ?n \<le> 0 then 1 else 0)" using assms(3) p(2) by simp
  have b: "0 + started (fst (StartContainers envs l)) < 2 ^ 32 + ?n" using assms(4) by simp
  from StartContainers_state [OF p(2) p(3) p(1) c s b] show ?thesis by simp
qed

theorem StartedCh_once_witness:
  "0 < sint (NumContainers \<lparr>NumContainers = 2, containersStarted = 0, StartedCh = 0\<rparr>) \<and>
   StartedCh (snd (StartContainers [okEnv]
      \<lparr>NumContainers = 2, containersStarted = 0, StartedCh = 0\<rparr>)) = 0 \<and>
   StartedCh (snd (StartContainers [okEnv, failEnv, okEnv]
      \<lparr>NumContainers = 2, containersStarted = 0, StartedCh = 0\<rparr>)) = 1 \<and>
   StartedCh (snd (StartContainers [okEnv, failEnv, okEnv, okEnv, okEnv]
      \<lparr>NumContainers = 2, containersStarted = 0, StartedCh = 0\<rparr>)) = 1"
  using StartedCh_once [of "\<lparr>NumContainers = 2, containersStarted = 0, StartedCh = 0\<rparr>" "[okEnv]"]
    StartedCh_once [of "\<lparr>NumContainers = 2, containersStarted = 0, StartedCh = 0\<rparr>"
      "[okEnv, failEnv, okEnv]"]
    StartedCh_once [of "\<lparr>NumContainers = 2, containersStarted = 0, StartedCh = 0\<rparr>"
      "[okEnv, failEnv, okEnv, okEnv, okEnv]"]
  by (simp add: StartContainer_def okEnv_def failEnv_def started_def Let_def)

section \<open>The control plane: the mount namespace of a container\<close>

text \<open>
  The root mount: whatever the file descriptor and the submounts, the one call to
  \<open>NewMountNamespace\<close> has the empty source, the given filesystem type and options
  with \<open>ReadOnly\<close> set and the data \<open>trans=fd,rfdno=<fd>,wfdno=<fd>\<close>.
\<close>

lemma createNewMountNamespace_root:
  "createNewMountNamespace N R creds fsType fd submounts =
     (case N (R creds) '''' fsType
        \<lparr>ReadOnly = True,
         GetFilesystemOptions =
           \<lparr>Data = ''trans=fd,rfdno='' @ Itoa fd @ '',wfdno='' @ Itoa fd,
            InternalData = \<lparr>UniqueID = ''/''\<rparr>\<rparr>,
         InternalMount = True\<rparr> of
        Inl err \<Rightarrow> Inl (''failed to construct MountNamespace: '' @ err)
      | Inr mns \<Rightarrow> Inr mns)"
  by (simp add: createNewMountNamespace_def)

lemma createNewMountNamespace_ignores_submounts:
  "createNewMountNamespace N R creds fsType fd submounts =
   createNewMountNamespace N R creds fsType fd []"
  by (simp add: createNewMountNamespace_def)

lemma Itoa_examples: "Itoa 5 = ''5''" "Itoa 42 = ''42''" "Itoa (- 17) = ''-17''" "Itoa 0 = ''0''"
  by (simp_all add: Itoa_def natToDec.simps)

text \<open>
  C9.  The root mount is as the claim says, but the submounts are not mounted: called
  with mount fd 5 and the submount \<open>/tmp\<close> of type tmpfs, the function returns the
  namespace as \<open>NewMountNamespace\<close> built it, holding the read-only root mount with
  data \<open>trans=fd,rfdno=5,wfdno=5\<close> and nothing else.
\<close>

theorem createNewMountNamespace_no_submounts:
  "createNewMountNamespace rootOnly id () ''9p'' 5
      [\<lparr>Target = ''/tmp'', FsType = ''tmpfs''\<rparr>] =
     Inr [('''', ''9p'',
           \<lparr>ReadOnly = True,
            GetFilesystemOptions =
              \<lparr>Data = ''trans=fd,rfdno=5,wfdno=5'', InternalData = \<lparr>UniqueID = ''/''\<rparr>\<rparr>,
            InternalMount = True\<rparr>)]"
  by (simp add: createNewMountNamespace_def rootOnly_def Itoa_def natToDec.simps)

section \<open>Container status: Pause and Resume\<close>

lemma Lifecycle_Pause_Resume_nil:
  "fst (Lifecycle_Pause KernelPause k) = None" "fst (Lifecycle_Resume KernelUnpause k) = None"
  by (simp_all add: Lifecycle_Pause_def Lifecycle_Resume_def)

text \<open>
  C6.  \<open>Pause\<close> on a Running container succeeds and leaves it Paused; on a container
  in any other status (Paused among them) it fails with NotRunning and the container
  is unchanged.  \<open>Resume\<close> on a Paused container succeeds and leaves it Running; in
  any other status (Running among them) it fails with NotPaused and the container is
  unchanged.
\<close>

theorem Container_Pause_Resume_status:
  "(Status c = Running \<longrightarrow> Container_Pause c = (None, c\<lparr>Status := Paused\<rparr>)) \<and>
   (Status c \<noteq> Running \<longrightarrow> Container_Pause c = (Some NotRunning, c)) \<and>
   (Status c = Paused \<longrightarrow> Container_Resume c = (None, c\<lparr>Status := Running\<rparr>)) \<and>
   (Status c \<noteq> Paused \<longrightarrow> Container_Resume c = (Some NotPaused, c))"
  by (simp add: Container_Pause_def Container_Resume_def)

theorem Container_Pause_Resume_status_witness:
  "Container_Pause \<lparr>ID = ''c1'', Status = Running\<rparr> = (None, \<lparr>ID = ''c1'', Status = Paused\<rparr>) \<and>
   Container_Pause \<lparr>ID = ''c1'', Status = Paused\<rparr> =
     (Some NotRunning, \<lparr>ID = ''c1'', Status = Paused\<rparr>) \<and>
   Container_Resume \<lparr>ID = ''c1'', Status = Paused\<rparr> = (None, \<lparr>ID = ''c1'', Status = Running\<rparr>) \<and>
   Container_Resume \<lparr>ID = ''c1'', Status = Running\<rparr> =
     (Some NotPaused, \<lparr>ID = ''c1'', Status = Running\<rparr>)"
  using Container_Pause_Resume_status [of "\<lparr>ID = ''c1'', Status = Running\<rparr>"]
    Container_Pause_Resume_status [of "\<lparr>ID = ''c1'', Status = Paused\<rparr>"]
  by simp

section \<open>Validation of the restore spec: results\<close>

lemma names_iff:
  "names (RestoreValidateSpec sb ignore old new) f =
     (\<not> ignore \<and> f \<in> set (mismatches sb old new))"
  by (cases "mismatches sb old new") (simp_all add: RestoreValidateSpec_def)

lemma fails_iff:
  "(\<exists>e. RestoreValidateSpec sb ignore old new = Some e) =
     (\<not> ignore \<and> mismatches sb old new \<noteq> [])"
  by (cases "mismatches sb old new") (simp_all add: RestoreValidateSpec_def)

lemma RestoreValidateSpec_ignore: "RestoreValidateSpec sb True old new = None"
  by (simp add: RestoreValidateSpec_def)

text \<open>
  C2.  When validation is not set to ignore, a restoring spec that differs from the
  checkpointed one in \<open>Terminal\<close> fails validation with an error that names
  \<open>Terminal\<close>; and so for each field of the list: arguments that do not match,
  capabilities, devices, the namespace types, the seccomp profile and the validated
  annotations.
\<close>

theorem RestoreValidateSpec_names_mismatch:
  assumes "\<not> ignore"
  shows "(Terminal old \<noteq> Terminal new \<longrightarrow>
            RestoreValidateSpec sb ignore old new \<noteq> None \<and>
            names (RestoreValidateSpec sb ignore old new) ''Terminal'')
       \<and> (\<not> argsMatch sb old new \<longrightarrow>
            RestoreValidateSpec sb ignore old new \<noteq> None \<and>
            names (RestoreValidateSpec sb ignore old new) ''Args'')
       \<and> (Capabilities old \<noteq> Capabilities new \<longrightarrow>
            RestoreValidateSpec sb ignore old new \<noteq> None \<and>
            names (RestoreValidateSpec sb ignore old new) ''Capabilities'')
       \<and> (Devices old \<noteq> Devices new \<longrightarrow>
            RestoreValidateSpec sb ignore old new \<noteq> None \<and>
            names (RestoreValidateSpec sb ignore old new) ''Devices'')
       \<and> (map Type (Namespaces old) \<noteq> map Type (Namespaces new) \<longrightarrow>
            RestoreValidateSpec sb ignore old new \<noteq> None \<and>
            names (RestoreValidateSpec sb ignore old new) ''Namespace'')
       \<and> (Seccomp old \<noteq> Seccomp new \<longrightarrow>
            RestoreValidateSpec sb ignore old new \<noteq> None \<and>
            names (RestoreValidateSpec sb ignore old new) ''Seccomp'')
       \<and> (validatedAnnotations (Annotations old) \<noteq> validatedAnnotations (Annotations new) \<longrightarrow>
            RestoreValidateSpec sb ignore old new \<noteq> None \<and>
            names (RestoreValidateSpec sb ignore old new) ''Annotations'')"
  using assms by (simp add: names_iff fails_iff mismatches_def)

theorem RestoreValidateSpec_names_mismatch_witness:
  "RestoreValidateSpec (\<lambda>c a b. False) False sleepSpec (sleepSpec\<lparr>Terminal := True\<rparr>) =
     Some (SpecMismatch [''Terminal'']) \<and>
   names (RestoreValidateSpec (\<lambda>c a b. False) False sleepSpec (sleepSpec\<lparr>Terminal := True\<rparr>))
     ''Terminal'' \<and>
   names (RestoreValidateSpec (\<lambda>c a b. False) False sleepSpec
     (sleepSpec\<lparr>Args := [''sleep'', ''1000'', ''new arg'']\<rparr>)) ''Args''"
  using RestoreValidateSpec_names_mismatch
      [of False sleepSpec "sleepSpec\<lparr>Terminal := True\<rparr>" "\<lambda>c a b. False"]
    RestoreValidateSpec_names_mismatch
      [of False sleepSpec "sleepSpec\<lparr>Args := [''sleep'', ''1000'', ''new arg'']\<rparr>"
          "\<lambda>c a b. False"]
  by (simp add: sleepSpec_def argsMatch_def RestoreValidateSpec_def mismatches_def
      validatedAnnotations_def)

text \<open>
  C3.  Namespaces are compared by \<open>Type\<close> only and \<open>Resources\<close> not at all: when the
  restoring spec is the checkpointed one except for its namespaces and its resources,
  and the namespace lists have the same types in the same order (the paths may
  differ), validation passes.
\<close>

theorem RestoreValidateSpec_namespace_paths_resources:
  "\<lbrakk>map Type (Namespaces old) = map Type (Namespaces new);
    new = old\<lparr>Namespaces := Namespaces new, Resources := Resources new\<rparr>\<rbrakk>
   \<Longrightarrow> RestoreValidateSpec sb ignore old new = None"
proof -
  assume t: "map Type (Namespaces old) = map Type (Namespaces new)"
    and e: "new = old\<lparr>Namespaces := Namespaces new, Resources := Resources new\<rparr>"
  have "Terminal new = Terminal old" "Args new = Args old" "Capabilities new = Capabilities old"
    "Devices new = Devices old" "Seccomp new = Seccomp old" "Mounts new = Mounts old"
    "Annotations new = Annotations old"
    by (subst e, simp)+
  with t have "mismatches sb old new = []"
    by (simp add: mismatches_def argsMatch_def)
  then show ?thesis by (simp add: RestoreValidateSpec_def)
qed

theorem RestoreValidateSpec_namespace_paths_resources_witness:
  "RestoreValidateSpec (\<lambda>c a b. False) False
     (sleepSpec\<lparr>Namespaces := [\<lparr>Type = ''network'', Path = ''/proc/7/ns/net1''\<rparr>]\<rparr>)
     (sleepSpec\<lparr>Namespaces := [\<lparr>Type = ''network'', Path = ''/proc/7/ns/net2''\<rparr>]\<rparr>) = None \<and>
   RestoreValidateSpec (\<lambda>c a b. False) False sleepSpec (sleepSpec\<lparr>Resources := 5\<rparr>) = None"
  using RestoreValidateSpec_namespace_paths_resources
      [of "sleepSpec\<lparr>Namespaces := [\<lparr>Type = ''network'', Path = ''/proc/7/ns/net1''\<rparr>]\<rparr>"
          "sleepSpec\<lparr>Namespaces := [\<lparr>Type = ''network'', Path = ''/proc/7/ns/net2''\<rparr>]\<rparr>"
          "\<lambda>c a b. False" False]
    RestoreValidateSpec_namespace_paths_resources
      [of sleepSpec "sleepSpec\<lparr>Resources := 5\<rparr>" "\<lambda>c a b. False" False]
  by (simp add: sleepSpec_def)

end
